theory Spec2Isabelle
  imports Complex_Main "HOL-Library.Product_Lexorder" "HOL-Library.Sublist"
begin

section \<open>Cell values, exceptions and the pandas conversions\<close>

text \<open>
  A pandas \<open>Timestamp\<close> is modelled by its calendar fields and the time of day in
  nanoseconds; the lexicographic order of the tuple is the chronological order.
\<close>

type_synonym timestamp = "int \<times> nat \<times> nat \<times> nat"




text \<open>
  The value of a spreadsheet cell. \<open>PyNone\<close>, \<open>NaN\<close> and \<open>NaT\<close> are the three
  values for which \<open>pd.isna\<close> is true. Numbers are exact rationals: the rounding of
  floating-point arithmetic is outside this model.
\<close>

datatype cell = PyNone | NaN | NaT | Number rat | Text string | Timestamp timestamp

fun isna :: "cell \<Rightarrow> bool" where
  "isna PyNone = True"
| "isna NaN = True"
| "isna NaT = True"
| "isna (Number n) = False"
| "isna (Text s) = False"
| "isna (Timestamp t) = False"

datatype exn =
    ValueError string
  | KeyError string
  | IndexError
  | TypeError
  | ZeroDivisionError
  | PandasError

text \<open>
  pandas itself is not part of the repository. What its conversion functions do with
  a text (and with the other values the source does not determine) is a parameter:
  a call may raise, return the missing value (\<open>NaT\<close> or \<open>NaN\<close>) or return a
  value. \<open>str_of\<close> is Python's \<open>str\<close> on numbers and timestamps.
\<close>

datatype 'a outcome = Raises | Missing | Value 'a

record pandas =
  datetime_of :: "cell \<Rightarrow> timestamp outcome"
  numeric_of :: "cell \<Rightarrow> rat outcome"
  str_of :: "cell \<Rightarrow> string"

text \<open>
  The result of a conversion call: \<open>Inl PandasError\<close> when pandas raised,
  \<open>Inr None\<close> for the missing value.
\<close>

definition returned :: "'a outcome \<Rightarrow> exn + 'a option" where
  "returned r = (case r of Raises \<Rightarrow> Inl PandasError | Missing \<Rightarrow> Inr None | Value v \<Rightarrow> Inr (Some v))"


text \<open>\<open>pd.to_numeric(x, errors='coerce')\<close> on one value: a number is returned as it is.\<close>

definition to_numeric :: "pandas \<Rightarrow> cell \<Rightarrow> exn + rat option" where
  "to_numeric pd c =
     (case c of
        Number n \<Rightarrow> Inr (Some n)
      | Text s \<Rightarrow> returned (numeric_of pd c)
      | Timestamp t \<Rightarrow> returned (numeric_of pd c)
      | _ \<Rightarrow> Inr None)"


text \<open>\<open>tasa == 0\<close>: only a number compares equal to zero.\<close>

definition eq_zero :: "cell \<Rightarrow> bool" where
  "eq_zero c = (c = Number 0)"

text \<open>
  \<open>a / b\<close> for a cell and a number: a zero divisor raises, and so does a numerator
  that is not a number.
\<close>

definition divide_cell :: "cell \<Rightarrow> rat \<Rightarrow> exn + cell" where
  "divide_cell a b =
     (case a of
        Number x \<Rightarrow> (if b = 0 then Inl ZeroDivisionError else Inr (Number (x / b)))
      | _ \<Rightarrow> Inl TypeError)"

text \<open>Sequencing of calls that may raise, and \<open>try: ... except Exception: return None\<close>.\<close>

definition bind_exn :: "exn + 'a \<Rightarrow> ('a \<Rightarrow> exn + 'b) \<Rightarrow> exn + 'b" where
  "bind_exn m f = (case m of Inl e \<Rightarrow> Inl e | Inr x \<Rightarrow> f x)"

definition except_none :: "exn + cell \<Rightarrow> cell" where
  "except_none m = (case m of Inl e \<Rightarrow> PyNone | Inr v \<Rightarrow> v)"

section \<open>Strings\<close>





section \<open>Rows and tables\<close>

text \<open>
  A row handed to a row function is a pandas \<open>Series\<close>: labels to values, and
  \<open>row[label]\<close> raises \<open>KeyError\<close> on a label it does not have. A \<open>DataFrame\<close> is
  its column labels and its rows in order.
\<close>

type_synonym row = "string \<rightharpoonup> cell"

definition getitem :: "row \<Rightarrow> string \<Rightarrow> exn + cell" where
  "getitem r c = (case r c of None \<Rightarrow> Inl (KeyError c) | Some v \<Rightarrow> Inr v)"

record dataframe =
  columns :: "string list"
  rows :: "row list"





section \<open>Order amount, associated amount and net debt\<close>








text \<open>
  In \<open>calcular_monto_real_deuda\<close> an operand that is missing, or that
  \<open>pd.to_numeric\<close> coerces to \<open>NaN\<close>, counts as zero once the both-missing case has
  returned.
\<close>

definition numero_o_cero :: "pandas \<Rightarrow> cell \<Rightarrow> exn + rat" where
  "numero_o_cero pd c =
     (if \<not> isna c
      then bind_exn (to_numeric pd c) (\<lambda>n. case n of None \<Rightarrow> Inr 0 | Some x \<Rightarrow> Inr x)
      else Inr 0)"

definition calcular_monto_real_deuda_body :: "pandas \<Rightarrow> row \<Rightarrow> exn + cell" where
  "calcular_monto_real_deuda_body pd row =
     bind_exn (getitem row ''MONTO OC USD'') (\<lambda>monto_oc_usd.
     bind_exn (getitem row ''MONTO OC ASOCIADO USD'') (\<lambda>monto_oc_asociado_usd.
       if isna monto_oc_usd \<and> isna monto_oc_asociado_usd then Inr PyNone
       else
         bind_exn (numero_o_cero pd monto_oc_usd) (\<lambda>a.
         bind_exn (numero_o_cero pd monto_oc_asociado_usd) (\<lambda>b.
           Inr (Number (a - b))))))"

definition calcular_monto_real_deuda :: "pandas \<Rightarrow> row \<Rightarrow> cell" where
  "calcular_monto_real_deuda pd row = except_none (calcular_monto_real_deuda_body pd row)"

section \<open>Closed orders\<close>



section \<open>Fiscal year\<close>









section \<open>Schema validation of the orders table\<close>

definition COLUMNAS_ESPERADAS :: "string list" where
  "COLUMNAS_ESPERADAS =
     [''NUMERO_OC'', ''PROVEEDOR'', ''SUCURSAL'', ''DIVISA'', ''PRICE_OVERRIDE'', ''IMPORTE'',
      ''IMPORTE_RECIBIDO'', ''IMPORTE_ASOCIADO'', ''FECHA_ORDEN'', ''UNIDAD_MEDIDA'',
      ''DESCRIPCION'', ''CUENTA_CARGO'', ''SOLICITANTE'', ''ESTADO_CIERRE'', ''APROBADOR'',
      ''FECHA_CIERRE'']"






section \<open>Rate lookup\<close>

















section \<open>Area lookup\<close>



section \<open>The amount stages and the pipeline\<close>









section \<open>A concrete instance of the conversions\<close>

text \<open>
  An instance used to evaluate the functions on concrete rows: the text \<open>2\<close> is the
  number two and \<open>2026-01-05\<close> is that day at midnight; any other text is not a
  number (\<open>NaN\<close> under coercion) and fails to parse as a date.
\<close>

definition pandas_ejemplo :: pandas where
  "pandas_ejemplo =
     \<lparr>datetime_of = (\<lambda>c. if c = Text ''2026-01-05'' then Value (2026, 1, 5, 0) else Raises),
      numeric_of = (\<lambda>c. if c = Text ''2'' then Value 2 else Missing),
      str_of = (\<lambda>c. ''?'')\<rparr>"

text \<open>
  A rate table with two dated rates for the bolivar, out of order, and one with four
  rows of the same date, the first and the last without a rate.
\<close>

definition tasa_ejemplo :: dataframe where
  "tasa_ejemplo =
     \<lparr>columns = [''FECHA'', ''VES/USD''],
      rows = [[''FECHA'' \<mapsto> Timestamp (2026, 1, 10, 0), ''VES/USD'' \<mapsto> Number 55],
              [''FECHA'' \<mapsto> Timestamp (2026, 1, 1, 0), ''VES/USD'' \<mapsto> Number 50]]\<rparr>"

definition tasa_duplicada :: dataframe where
  "tasa_duplicada =
     \<lparr>columns = [''FECHA'', ''VES/USD''],
      rows = [[''FECHA'' \<mapsto> Timestamp (2026, 1, 10, 0), ''VES/USD'' \<mapsto> NaN],
              [''FECHA'' \<mapsto> Timestamp (2026, 1, 10, 0), ''VES/USD'' \<mapsto> Number 55],
              [''FECHA'' \<mapsto> Timestamp (2026, 1, 10, 0), ''VES/USD'' \<mapsto> Number 60],
              [''FECHA'' \<mapsto> Timestamp (2026, 1, 10, 0), ''VES/USD'' \<mapsto> NaN]]\<rparr>"

text \<open>
  An orders table with the sixteen columns and three orders: an open one in
  bolivars, a closed one, and an open one in dollars with no associated amount.
\<close>

definition fila :: "cell list \<Rightarrow> row" where
  "fila valores = map_of (zip COLUMNAS_ESPERADAS valores)"

definition ordenes_ejemplo :: dataframe where
  "ordenes_ejemplo =
     \<lparr>columns = COLUMNAS_ESPERADAS,
      rows =
        [fila [Text ''OC-1'', Text ''Proveedor A'', Text ''Caracas'', Text ''VES'', Number 2,
               Number 100, Number 0, Number 50, Timestamp (2026, 1, 5, 0), Text ''UND'',
               Text ''Insumos'', Text ''6101'', Text ''Ana'', Text ''ABIERTO'', Text ''Eva'', NaT],
         fila [Text ''OC-2'', Text ''Proveedor B'', Text ''Caracas'', Text ''VES'', Number 1,
               Number 10, Number 10, Number 0, Timestamp (2026, 1, 6, 0), Text ''UND'',
               Text ''Equipo'', Text ''6102'', Text ''Ana'', Text ''Cerrado'', Text ''Eva'',
               Timestamp (2026, 1, 9, 0)],
         fila [Text ''OC-3'', Text ''Proveedor C'', Text ''Valencia'', Text ''usd'', Number 1,
               Number 30, Number 0, NaN, Timestamp (2026, 1, 10, 0), Text ''UND'',
               Text ''Servicio'', Text ''6103'', Text ''Luis'', NaN, Text ''Eva'', NaT]]\<rparr>"

section \<open>Net debt\<close>

lemmas amount_defs =
  bind_exn_def except_none_def getitem_def to_numeric_def returned_def divide_cell_def
  eq_zero_def

text \<open>
  C1. Net debt of a row: with both USD amounts missing the net debt is missing; with
  exactly one missing, that operand counts as zero, so the net is the order amount, or
  the associated amount negated; with both present it is the order amount minus the
  associated amount.
\<close>

theorem calcular_monto_real_deuda_null_rule:
  fixes pd :: pandas and row :: row and oc asoc :: cell
  assumes "row ''MONTO OC USD'' = Some oc"
    and "row ''MONTO OC ASOCIADO USD'' = Some asoc"
  shows "(isna oc \<and> isna asoc \<longrightarrow> calcular_monto_real_deuda pd row = PyNone)
    \<and> (\<forall>a. oc = Number a \<and> isna asoc \<longrightarrow> calcular_monto_real_deuda pd row = Number a)
    \<and> (\<forall>b. isna oc \<and> asoc = Number b \<longrightarrow> calcular_monto_real_deuda pd row = Number (- b))
    \<and> (\<forall>a b. oc = Number a \<and> asoc = Number b \<longrightarrow>
          calcular_monto_real_deuda pd row = Number (a - b))"
  using assms
  by (auto simp: calcular_monto_real_deuda_def calcular_monto_real_deuda_body_def
      numero_o_cero_def amount_defs)

theorem calcular_monto_real_deuda_null_rule_witness:
  "calcular_monto_real_deuda pandas_ejemplo
     [''MONTO OC USD'' \<mapsto> NaN, ''MONTO OC ASOCIADO USD'' \<mapsto> PyNone] = PyNone
   \<and> calcular_monto_real_deuda pandas_ejemplo
     [''MONTO OC USD'' \<mapsto> Number 10, ''MONTO OC ASOCIADO USD'' \<mapsto> NaN] = Number 10
   \<and> calcular_monto_real_deuda pandas_ejemplo
     [''MONTO OC USD'' \<mapsto> NaN, ''MONTO OC ASOCIADO USD'' \<mapsto> Number 4] = Number (- 4)
   \<and> calcular_monto_real_deuda pandas_ejemplo
     [''MONTO OC USD'' \<mapsto> Number 10, ''MONTO OC ASOCIADO USD'' \<mapsto> Number 4] = Number 6"
  using
    calcular_monto_real_deuda_null_rule [where pd = pandas_ejemplo and oc = NaN and asoc = PyNone
      and row = "[''MONTO OC USD'' \<mapsto> NaN, ''MONTO OC ASOCIADO USD'' \<mapsto> PyNone]"]
    calcular_monto_real_deuda_null_rule [where pd = pandas_ejemplo and oc = "Number 10" and asoc = NaN
      and row = "[''MONTO OC USD'' \<mapsto> Number 10, ''MONTO OC ASOCIADO USD'' \<mapsto> NaN]"]
    calcular_monto_real_deuda_null_rule [where pd = pandas_ejemplo and oc = NaN and asoc = "Number 4"
      and row = "[''MONTO OC USD'' \<mapsto> NaN, ''MONTO OC ASOCIADO USD'' \<mapsto> Number 4]"]
    calcular_monto_real_deuda_null_rule [where pd = pandas_ejemplo and oc = "Number 10"
      and asoc = "Number 4"
      and row = "[''MONTO OC USD'' \<mapsto> Number 10, ''MONTO OC ASOCIADO USD'' \<mapsto> Number 4]"]
  by simp

section \<open>Conversion to USD\<close>









section \<open>Closed-order filter\<close>












section \<open>Fiscal year of an order date\<close>



section \<open>Schema validation\<close>










section \<open>Rate assignment without a currency column\<close>







end
